theory Spec2Isabelle
  imports Main "HOL-Library.Word" "HOL-Library.Signed_Division"
begin

section \<open>The allocation manager of the relay server\<close>

text \<open>
  A shallow embedding of \<^verbatim>\<open>internal/allocation/allocation_manager.go\<close>.
  Every method of \<^verbatim>\<open>Manager\<close> becomes a function that takes the state it
  reads and returns the state it leaves. What Go does besides returning is written
  out: a returned \<^verbatim>\<open>error\<close> is the left summand of the result, a run-time
  panic is the outcome \<open>Panics\<close>, and a loop with no bound consumes a
  script of what its environment answers and yields \<open>None\<close> when the script
  ends before the loop does.

  The lock \<^verbatim>\<open>m.lock\<close> is not a field of the model: each method body, which
  the source brackets with Lock/Unlock (or RLock/RUnlock), is one atomic
  transition of the state. The model is sequential. \<^verbatim>\<open>BindConnection\<close>
  writes both connection maps while it holds the read lock only, which does
  not keep two of its calls apart; what is proved of it is proved of a call
  that runs alone.
\<close>

subsection \<open>Values of the collaborators\<close>

text \<open>
  Objects owned by collaborators (a \<^verbatim>\<open>net.PacketConn\<close>, a
  \<^verbatim>\<open>net.Listener\<close>, a logger, an injected function value) are named by a
  handle; an interface or function value that may be \<^verbatim>\<open>nil\<close> is a
  \<open>handle option\<close>.
\<close>

type_synonym handle = nat

text \<open>
  A \<^verbatim>\<open>net.Addr\<close>: either a \<^verbatim>\<open>*net.UDPAddr\<close>, of which the manager
  reads the field \<^verbatim>\<open>Port\<close> (a Go \<^verbatim>\<open>int\<close>), or an address of any
  other dynamic type.
\<close>

datatype Addr = UDPAddr int | OtherAddr string

text \<open>
  The declarations of \<^verbatim>\<open>Protocol\<close> and \<^verbatim>\<open>FiveTuple\<close> are in a file
  that is not among the sources. The manager reads the three fields below, and
  its \<^verbatim>\<open>switch fiveTuple.Protocol\<close> has the cases \<^verbatim>\<open>UDP\<close> and
  \<^verbatim>\<open>TCP\<close> and no default, so the model keeps a third alternative for a
  value that matches neither case.
\<close>

datatype Protocol = UDP | TCP | OtherProtocol nat

record FiveTuple =
  Protocol :: Protocol
  SrcAddr :: "Addr option"
  DstAddr :: "Addr option"

text \<open>
  Errors. \<open>Errorf\<close> carries the format string of a \<^verbatim>\<open>fmt.Errorf\<close> call
  of the manager, \<open>ErrorfTuple\<close> the one call that formats a five-tuple with
  \<^verbatim>\<open>%v\<close>; \<open>External\<close> is an error value produced by a collaborator (an
  injected capability, a \<^verbatim>\<open>Close\<close>, the allocation's \<^verbatim>\<open>connect\<close>).
\<close>

datatype error = Errorf string | ErrorfTuple string FiveTuple | External string

datatype panic = NilMapAssignment | NilFuncCall

datatype 'a outcome = Returns 'a | Panics panic

subsection \<open>Go maps\<close>

text \<open>
  A Go map value is \<^verbatim>\<open>nil\<close> until \<^verbatim>\<open>make\<close> creates it. Indexing and
  \<^verbatim>\<open>delete\<close> treat a nil map as an empty one; assigning to an entry of a
  nil map panics.
\<close>

datatype ('k, 'v) gomap = NilMap | GoMap "'k \<Rightarrow> 'v option"

fun map_index :: "('k, 'v) gomap \<Rightarrow> 'k \<Rightarrow> 'v option" where
  "map_index NilMap k = None"
| "map_index (GoMap f) k = f k"

fun map_delete :: "('k, 'v) gomap \<Rightarrow> 'k \<Rightarrow> ('k, 'v) gomap" where
  "map_delete NilMap k = NilMap"
| "map_delete (GoMap f) k = GoMap (f(k := None))"

fun map_assign :: "('k, 'v) gomap \<Rightarrow> 'k \<Rightarrow> 'v \<Rightarrow> ('k, 'v) gomap option" where
  "map_assign NilMap k v = None"
| "map_assign (GoMap f) k v = Some (GoMap (f(k \<mapsto> v)))"

subsection \<open>The manager and what surrounds it\<close>

text \<open>
  A \<^verbatim>\<open>*Allocation\<close> is the address of an allocation object: its index in
  the store \<open>heap\<close>. The maps of the manager hold such addresses; the model
  keeps no nil pointer in a map (the manager stores only the result of
  \<^verbatim>\<open>NewAllocation\<close> and the allocation \<^verbatim>\<open>Connect\<close> was called on).
\<close>

type_synonym cid = "32 word"

datatype callback = LifetimeExpired nat | ReservationExpired string

datatype goroutine = PacketHandler nat | ListenHandler nat | RemoveAfter30 cid string

text \<open>What an injected capability answers to one call.\<close>

datatype response = CapFails error | CapGives handle Addr

text \<open>
  The fields of \<^verbatim>\<open>Allocation\<close> that the manager writes, with the two that
  \<^verbatim>\<open>NewAllocation\<close> receives. A timer is the pair of its delay (a
  \<^verbatim>\<open>time.Duration\<close>, in nanoseconds) and its callback.
\<close>

record Allocation =
  fiveTuple :: FiveTuple
  TurnSocket :: handle
  RelaySocket :: "handle option"
  RelayListener :: "handle option"
  RelayAddr :: "Addr option"
  lifetimeTimer :: "(int \<times> callback) option"

record reservation =
  token :: string
  port :: int

text \<open>
  \<^verbatim>\<open>NewManager\<close>, the only constructor, refuses a configuration without a
  logger or without the packet capability, so these two fields always hold a
  value; \<^verbatim>\<open>allocateConn\<close> may be nil. The three maps are Go maps and may
  be nil.
\<close>

record Manager =
  log :: handle
  allocations :: "(string, nat) gomap"
  reservations :: "reservation list"
  waitingconns :: "(cid, nat) gomap"
  runningconns :: "(cid, nat) gomap"
  allocatePacketConn :: handle
  allocateConn :: "handle option"

record ManagerConfig =
  LeveledLogger :: "handle option"
  AllocatePacketConn :: "handle option"
  AllocateConn :: "handle option"

text \<open>
  Effects that leave the manager: log lines, timers armed with
  \<^verbatim>\<open>time.AfterFunc\<close>, goroutines started, and calls into collaborators with
  what they answered. They are appended to a trace, oldest first.
\<close>

datatype event =
    LogDebugf string Addr
  | LogErrorf string error
  | AfterFunc int callback
  | Go goroutine
  | CallAllocatePacketConn string int response
  | CallAllocateConn string int response
  | CallConnClose handle "error option"
  | CallAllocationClose nat "error option"
  | CallAllocationConnect nat cid string "error option"
  | CallRemoveConnection nat cid string

record World =
  mgr :: Manager
  heap :: "Allocation list"
  trace :: "event list"

definition emit :: "event \<Rightarrow> World \<Rightarrow> World" where
  "emit e w = w\<lparr>trace := trace w @ [e]\<rparr>"

subsection \<open>NewManager\<close>

definition NewManager :: "ManagerConfig \<Rightarrow> error + Manager" where
  "NewManager config =
     (case AllocatePacketConn config of
        None \<Rightarrow> Inl (Errorf ''AllocatePacketConn must be set'')
      | Some pc \<Rightarrow>
          (case LeveledLogger config of
             None \<Rightarrow> Inl (Errorf ''LeveledLogger must be set'')
           | Some lg \<Rightarrow>
               Inr \<lparr> log = lg,
                       allocations = GoMap Map.empty,
                       reservations = [],
                       waitingconns = NilMap,
                       runningconns = NilMap,
                       allocatePacketConn = pc,
                       allocateConn = AllocateConn config \<rparr>))"

subsection \<open>Connection ids\<close>

text \<open>
  The loop of \<^verbatim>\<open>newCID\<close>. The script \<open>draws\<close> lists what successive calls
  of \<^verbatim>\<open>rand.Uint32()\<close> return; the loop gives the first draw it accepts and
  the draws it left, or \<open>None\<close> when it is still running at the end of the
  script.
\<close>

fun newCID_loop :: "Manager \<Rightarrow> cid list \<Rightarrow> (cid \<times> cid list) option" where
  "newCID_loop m [] = None"
| "newCID_loop m (c # draws) =
     (if c = 0 then newCID_loop m draws
      else if map_index (waitingconns m) c \<noteq> None then newCID_loop m draws
      else if map_index (runningconns m) c \<noteq> None then newCID_loop m draws
      else Some (c, draws))"

definition newCID :: "nat \<Rightarrow> cid list \<Rightarrow> World \<Rightarrow> (cid outcome \<times> cid list \<times> World) option" where
  "newCID a draws w =
     (case newCID_loop (mgr w) draws of
        None \<Rightarrow> None
      | Some (c, rest) \<Rightarrow>
          (case map_assign (waitingconns (mgr w)) c a of
             None \<Rightarrow> Some (Panics NilMapAssignment, rest, w)
           | Some wc \<Rightarrow> Some (Returns c, rest, w\<lparr>mgr := (mgr w)\<lparr>waitingconns := wc\<rparr>\<rparr>)))"

text \<open>
  \<^verbatim>\<open>Connect\<close>. The allocation's \<^verbatim>\<open>connect\<close> is not among the sources: the
  argument \<open>connected\<close> is what it returns (\<open>None\<close> for a nil error). It
  receives the id and the destination only, and has no access to the manager.
  On failure Go returns \<^verbatim>\<open>(0, err)\<close>, here \<open>Inl err\<close>.
\<close>

definition Connect ::
  "nat \<Rightarrow> string \<Rightarrow> cid list \<Rightarrow> error option \<Rightarrow> World
     \<Rightarrow> ((error + cid) outcome \<times> cid list \<times> World) option" where
  "Connect a dst draws connected w =
     (case newCID a draws w of
        None \<Rightarrow> None
      | Some (Panics p, rest, w1) \<Rightarrow> Some (Panics p, rest, w1)
      | Some (Returns c, rest, w1) \<Rightarrow>
          (let w2 = emit (CallAllocationConnect a c dst connected) w1 in
           case connected of
             Some err \<Rightarrow> Some (Returns (Inl err), rest, w2)
           | None \<Rightarrow> Some (Returns (Inr c), rest, emit (Go (RemoveAfter30 c dst)) w2)))"

text \<open>
  The body of \<^verbatim>\<open>removeAfter30\<close> once its 30 seconds have passed.
\<close>

definition removeAfter30 :: "cid \<Rightarrow> string \<Rightarrow> World \<Rightarrow> World" where
  "removeAfter30 c dst w =
     (case map_index (waitingconns (mgr w)) c of
        None \<Rightarrow> w
      | Some a \<Rightarrow>
          emit (CallRemoveConnection a c dst)
            (w\<lparr>mgr := (mgr w)\<lparr>waitingconns := map_delete (waitingconns (mgr w)) c\<rparr>\<rparr>))"

text \<open>
  \<^verbatim>\<open>BindConnection\<close>. \<^verbatim>\<open>GetConnectionByID\<close> is a method of the allocation
  that is not among the sources: \<open>getConn a c\<close> is what it returns for the
  allocation at \<open>a\<close> and the id \<open>c\<close> (\<open>None\<close> for a nil
  \<^verbatim>\<open>net.Conn\<close>).
\<close>

definition BindConnection ::
  "(nat \<Rightarrow> cid \<Rightarrow> handle option) \<Rightarrow> cid \<Rightarrow> World \<Rightarrow> handle option outcome \<times> World" where
  "BindConnection getConn c w =
     (let a = map_index (waitingconns (mgr w)) c;
          w1 = w\<lparr>mgr := (mgr w)\<lparr>waitingconns := map_delete (waitingconns (mgr w)) c\<rparr>\<rparr>
      in case a of
           None \<Rightarrow> (Returns None, w1)
         | Some a' \<Rightarrow>
             (case map_assign (runningconns (mgr w1)) c a' of
                None \<Rightarrow> (Panics NilMapAssignment, w1)
              | Some rc \<Rightarrow>
                  (Returns (getConn a' c), w1\<lparr>mgr := (mgr w1)\<lparr>runningconns := rc\<rparr>\<rparr>)))"

subsection \<open>The directory of allocations\<close>

text \<open>
  \<^verbatim>\<open>FiveTuple.Fingerprint\<close> is declared with the five-tuple, outside the
  sources. Every function that calls it takes it as the argument
  \<open>Fingerprint\<close>; nothing is assumed of it but that it is a function.
  \<^verbatim>\<open>GetAllocation\<close> and \<^verbatim>\<open>DeleteAllocation\<close> call it on their
  argument at once, so their argument is a five-tuple and not a nil pointer.
\<close>

definition GetAllocation :: "(FiveTuple \<Rightarrow> string) \<Rightarrow> Manager \<Rightarrow> FiveTuple \<Rightarrow> nat option" where
  "GetAllocation Fingerprint m t = map_index (allocations m) (Fingerprint t)"

text \<open>
  Modelled from the spec: \<^verbatim>\<open>NewAllocation\<close> is declared with the allocation,
  outside the sources. It "constructs an Allocation bound to the tuple and
  client socket": a new object, at an address no other object has.
\<close>

definition NewAllocation :: "handle \<Rightarrow> FiveTuple \<Rightarrow> World \<Rightarrow> nat \<times> World" where
  "NewAllocation turnSocket t w =
     (length (heap w),
      w\<lparr>heap := heap w @ [\<lparr> fiveTuple = t, TurnSocket = turnSocket, RelaySocket = None,
                             RelayListener = None, RelayAddr = None, lifetimeTimer = None \<rparr>]\<rparr>)"

definition modify :: "nat \<Rightarrow> (Allocation \<Rightarrow> Allocation) \<Rightarrow> World \<Rightarrow> World" where
  "modify a f w = (if a < length (heap w) then w\<lparr>heap := (heap w)[a := f (heap w ! a)]\<rparr> else w)"

text \<open>
  The part of \<^verbatim>\<open>CreateAllocation\<close> that the two cases of its switch share
  once the capability has answered: the debug line, the lifetime timer, the
  insertion into the directory.
\<close>

definition register ::
  "(FiveTuple \<Rightarrow> string) \<Rightarrow> FiveTuple \<Rightarrow> nat \<Rightarrow> Addr \<Rightarrow> int \<Rightarrow> goroutine \<Rightarrow> World
     \<Rightarrow> (error + nat) outcome \<times> World" where
  "register Fingerprint t a relayAddr lifetime task w =
     (let w1 = emit (LogDebugf ''listening on relay addr: %s'' relayAddr) w;
          w2 = emit (AfterFunc lifetime (LifetimeExpired a))
                 (modify a (\<lambda>al. al\<lparr>lifetimeTimer := Some (lifetime, LifetimeExpired a)\<rparr>) w1)
      in case map_assign (allocations (mgr w2)) (Fingerprint t) a of
           None \<Rightarrow> (Panics NilMapAssignment, w2)
         | Some al \<Rightarrow> (Returns (Inr a), emit (Go task) (w2\<lparr>mgr := (mgr w2)\<lparr>allocations := al\<rparr>\<rparr>)))"

text \<open>
  \<^verbatim>\<open>CreateAllocation\<close>. The pointer \<^verbatim>\<open>fiveTuple\<close> is \<open>tuple\<close>,
  \<open>None\<close> when nil. A \<^verbatim>\<open>time.Duration\<close> is an integer number of
  nanoseconds. The argument \<open>resp\<close> is what the capability that the switch
  selects answers when it is called; by Go's convention it gives a connection
  (or listener) and an address, both not nil, when it gives no error.
\<close>

definition CreateAllocation ::
  "(FiveTuple \<Rightarrow> string) \<Rightarrow> FiveTuple option \<Rightarrow> handle option \<Rightarrow> int \<Rightarrow> int \<Rightarrow> response \<Rightarrow> World
     \<Rightarrow> (error + nat) outcome \<times> World" where
  "CreateAllocation Fingerprint tuple turnSocket requestedPort lifetime resp w =
     (case tuple of
        None \<Rightarrow> (Returns (Inl (Errorf ''allocations must not be created with nil FivTuple'')), w)
      | Some t \<Rightarrow>
          if SrcAddr t = None then
            (Returns (Inl (Errorf ''allocations must not be created with nil FiveTuple.SrcAddr'')), w)
          else if DstAddr t = None then
            (Returns (Inl (Errorf ''allocations must not be created with nil FiveTuple.DstAddr'')), w)
          else (case turnSocket of
            None \<Rightarrow> (Returns (Inl (Errorf ''allocations must not be created with nil turnSocket'')), w)
          | Some sock \<Rightarrow>
              if lifetime = 0 then
                (Returns (Inl (Errorf ''allocations must not be created with a lifetime of 0'')), w)
              else if GetAllocation Fingerprint (mgr w) t \<noteq> None then
                (Returns (Inl (ErrorfTuple ''allocation attempt created with duplicate FiveTuple %v'' t)), w)
              else
                (let (a, w1) = NewAllocation sock t w in
                 case Protocol t of
                   UDP \<Rightarrow>
                     (let w2 = emit (CallAllocatePacketConn ''udp4'' requestedPort resp) w1 in
                      case resp of
                        CapFails err \<Rightarrow> (Returns (Inl err), w2)
                      | CapGives conn relayAddr \<Rightarrow>
                          register Fingerprint t a relayAddr lifetime (PacketHandler a)
                            (modify a (\<lambda>al. al\<lparr>RelaySocket := Some conn, RelayAddr := Some relayAddr\<rparr>) w2))
                 | TCP \<Rightarrow>
                     (case allocateConn (mgr w1) of
                        None \<Rightarrow> (Panics NilFuncCall, w1)
                      | Some _ \<Rightarrow>
                          (let w2 = emit (CallAllocateConn ''tcp4'' requestedPort resp) w1 in
                           case resp of
                             CapFails err \<Rightarrow> (Returns (Inl err), w2)
                           | CapGives listener relayAddr \<Rightarrow>
                               register Fingerprint t a relayAddr lifetime (ListenHandler a)
                                 (modify a (\<lambda>al. al\<lparr>RelayListener := Some listener, RelayAddr := Some relayAddr\<rparr>) w2)))
                 | OtherProtocol _ \<Rightarrow> (Returns (Inr a), w1))))"

text \<open>
  \<^verbatim>\<open>DeleteAllocation\<close> has no result. The allocation's \<^verbatim>\<open>Close\<close> is not
  among the sources: \<open>closed\<close> is what it returns if it is called.
\<close>

definition DeleteAllocation :: "(FiveTuple \<Rightarrow> string) \<Rightarrow> FiveTuple \<Rightarrow> error option \<Rightarrow> World \<Rightarrow> World" where
  "DeleteAllocation Fingerprint t closed w =
     (let fingerprint = Fingerprint t;
          allocation = map_index (allocations (mgr w)) fingerprint;
          w1 = w\<lparr>mgr := (mgr w)\<lparr>allocations := map_delete (allocations (mgr w)) fingerprint\<rparr>\<rparr>
      in case allocation of
           None \<Rightarrow> w1
         | Some a \<Rightarrow>
             (let w2 = emit (CallAllocationClose a closed) w1 in
              case closed of
                None \<Rightarrow> w2
              | Some err \<Rightarrow> emit (LogErrorf ''Failed to close allocation: %v'' err) w2))"

subsection \<open>Reservations\<close>

definition Second :: int where
  "Second = 1000000000"

definition CreateReservation :: "string \<Rightarrow> int \<Rightarrow> World \<Rightarrow> World" where
  "CreateReservation reservationToken p w =
     (let w1 = emit (AfterFunc (30 * Second) (ReservationExpired reservationToken)) w
      in w1\<lparr>mgr := (mgr w1)\<lparr>reservations :=
               reservations (mgr w1) @ [\<lparr> token = reservationToken, port = p \<rparr>]\<rparr>\<rparr>)"

text \<open>
  The callback that \<^verbatim>\<open>CreateReservation\<close> hands to \<^verbatim>\<open>time.AfterFunc\<close>.
  Its loop runs \<^verbatim>\<open>i\<close> from \<^verbatim>\<open>len(m.reservations) - 1\<close> down to 0; the
  counter of \<open>expire_loop\<close> is \<^verbatim>\<open>i + 1\<close>.
\<close>

fun expire_loop :: "reservation list \<Rightarrow> string \<Rightarrow> nat \<Rightarrow> reservation list" where
  "expire_loop rs reservationToken 0 = rs"
| "expire_loop rs reservationToken (Suc i) =
     (if token (rs ! i) = reservationToken then take i rs @ drop (Suc i) rs
      else expire_loop rs reservationToken i)"

definition reservationExpired :: "string \<Rightarrow> World \<Rightarrow> World" where
  "reservationExpired reservationToken w =
     w\<lparr>mgr := (mgr w)\<lparr>reservations :=
          expire_loop (reservations (mgr w)) reservationToken (length (reservations (mgr w)))\<rparr>\<rparr>"

fun GetReservation_loop :: "reservation list \<Rightarrow> string \<Rightarrow> int \<times> bool" where
  "GetReservation_loop [] reservationToken = (0, False)"
| "GetReservation_loop (r # rs) reservationToken =
     (if token r = reservationToken then (port r, True)
      else GetReservation_loop rs reservationToken)"

definition GetReservation :: "Manager \<Rightarrow> string \<Rightarrow> int \<times> bool" where
  "GetReservation m reservationToken = GetReservation_loop (reservations m) reservationToken"

subsection \<open>GetRandomEvenPort\<close>

text \<open>
  One round of \<^verbatim>\<open>GetRandomEvenPort\<close> calls the packet capability once and
  may call \<^verbatim>\<open>Close\<close> on the connection it gave. A \<open>probe\<close> is what the
  environment answers in one round: the capability's response, and what
  \<^verbatim>\<open>conn.Close()\<close> returns if it is called. The function recurses with no
  bound; it consumes one probe per round and is \<open>None\<close> when the script ends
  before it returns. Go's \<^verbatim>\<open>%\<close> truncates towards zero: \<open>smod\<close>.
\<close>

datatype probe = Probe response "error option"

fun GetRandomEvenPort :: "probe list \<Rightarrow> World \<Rightarrow> ((error + int) \<times> World) option" where
  "GetRandomEvenPort [] w = None"
| "GetRandomEvenPort (Probe resp closed # probes) w =
     (let w1 = emit (CallAllocatePacketConn ''udp4'' 0 resp) w in
      case resp of
        CapFails err \<Rightarrow> Some (Inl err, w1)
      | CapGives conn addr \<Rightarrow>
          (case addr of
             OtherAddr s \<Rightarrow> Some (Inl (Errorf ''failed to cast net.Addr to *net.UDPAddr''), w1)
           | UDPAddr p \<Rightarrow>
               (let w2 = emit (CallConnClose conn closed) w1 in
                case closed of
                  Some err \<Rightarrow> Some (Inl err, w2)
                | None \<Rightarrow>
                    if p smod 2 = 1 then GetRandomEvenPort probes w2
                    else Some (Inr p, w2))))"

text \<open>
  The packet connections a stretch of the trace obtained from the capability,
  and those on which it records a call of \<^verbatim>\<open>Close\<close>.
\<close>

fun obtained :: "event list \<Rightarrow> handle list" where
  "obtained [] = []"
| "obtained (CallAllocatePacketConn network requestedPort (CapGives conn addr) # es) = conn # obtained es"
| "obtained (e # es) = obtained es"

fun closeCalled :: "event list \<Rightarrow> handle list" where
  "closeCalled [] = []"
| "closeCalled (CallConnClose conn closed # es) = conn # closeCalled es"
| "closeCalled (e # es) = closeCalled es"

subsection \<open>Concrete instances\<close>

text \<open>
  A fingerprint function, a manager whose maps all exist and an empty world
  for the concrete instances below. The theorems hold for every fingerprint
  function and every world.
\<close>

definition sampleFingerprint :: "FiveTuple \<Rightarrow> string" where
  "sampleFingerprint t =
     (case Protocol t of UDP \<Rightarrow> ''0'' | TCP \<Rightarrow> ''1'' | OtherProtocol n \<Rightarrow> ''?'') @
     (case SrcAddr t of Some (OtherAddr s) \<Rightarrow> CHR ''_'' # s | _ \<Rightarrow> ''_'') @
     (case DstAddr t of Some (OtherAddr s) \<Rightarrow> CHR ''_'' # s | _ \<Rightarrow> ''_'')"

definition sampleTuple :: "Protocol \<Rightarrow> FiveTuple" where
  "sampleTuple pr = \<lparr> Protocol = pr, SrcAddr = Some (OtherAddr ''client''), DstAddr = Some (OtherAddr ''server'') \<rparr>"

definition sampleConfig :: ManagerConfig where
  "sampleConfig = \<lparr> LeveledLogger = Some 1, AllocatePacketConn = Some 2, AllocateConn = Some 3 \<rparr>"

definition madeManager :: Manager where
  "madeManager = \<lparr> log = 1, allocations = GoMap Map.empty, reservations = [],
                   waitingconns = GoMap Map.empty, runningconns = GoMap Map.empty,
                   allocatePacketConn = 2, allocateConn = Some 3 \<rparr>"

definition world :: "Manager \<Rightarrow> World" where
  "world m = \<lparr> mgr = m, heap = [], trace = [] \<rparr>"

text \<open>
  An allocation whose \<^verbatim>\<open>GetConnectionByID\<close> gives the connection 5 for
  every id.
\<close>

definition sampleConn :: "nat \<Rightarrow> cid \<Rightarrow> handle option" where
  "sampleConn a c = Some 5"

text \<open>
  One UDP allocation asked of the empty manager, with the lifetime as the
  argument; the capability gives the connection 8 on port 49152.
\<close>

definition sampleCreated :: "int \<Rightarrow> (error + nat) outcome \<times> World" where
  "sampleCreated lifetime =
     CreateAllocation sampleFingerprint (Some (sampleTuple UDP)) (Some 4) 0 lifetime
       (CapGives 8 (UDPAddr 49152)) (world madeManager)"

section \<open>Properties\<close>

subsection \<open>Auxiliary facts\<close>

lemma mgr_emit [simp]: "mgr (emit e w) = mgr w"
  and heap_emit [simp]: "heap (emit e w) = heap w"
  and trace_emit [simp]: "trace (emit e w) = trace w @ [e]"
  by (simp_all add: emit_def)

lemma mgr_modify [simp]: "mgr (modify a f w) = mgr w"
  and trace_modify [simp]: "trace (modify a f w) = trace w"
  by (simp_all add: modify_def)

lemma map_index_assign:
  "map_assign m k v = Some m' \<Longrightarrow> map_index m' k' = (if k' = k then Some v else map_index m k')"
  by (cases m) auto

lemma map_index_delete [simp]:
  "map_index (map_delete m k) k' = (if k' = k then None else map_index m k')"
  by (cases m) auto

subsection \<open>Connection ids\<close>

lemma newCID_loop_accepts:
  "newCID_loop m draws = Some (c, rest) \<Longrightarrow>
     c \<noteq> 0 \<and> map_index (waitingconns m) c = None \<and> map_index (runningconns m) c = None"
  by (induction draws) (auto split: if_splits)

text \<open>
  The loop ends as soon as the generator draws one acceptable value.
\<close>

lemma newCID_loop_progress:
  "c \<in> set draws \<Longrightarrow> c \<noteq> 0 \<Longrightarrow> map_index (waitingconns m) c = None \<Longrightarrow>
   map_index (runningconns m) c = None \<Longrightarrow> \<exists>c' rest. newCID_loop m draws = Some (c', rest)"
  by (induction draws) auto

lemma newCID_Returns:
  assumes "newCID a draws w = Some (Returns c, rest, w')"
  shows "c \<noteq> 0" "map_index (waitingconns (mgr w)) c = None" "map_index (runningconns (mgr w)) c = None"
    "map_index (waitingconns (mgr w')) k = (if k = c then Some a else map_index (waitingconns (mgr w)) k)"
    "runningconns (mgr w') = runningconns (mgr w)" "trace w' = trace w" "heap w' = heap w"
  using assms newCID_loop_accepts[of "mgr w" draws]
  by (auto simp: newCID_def map_index_assign split: option.splits prod.splits)

text \<open>
  \<^verbatim>\<open>newCID\<close> returns as soon as the waiting map exists and the generator
  draws one value that is not 0 and in neither map.
\<close>

lemma newCID_returns:
  assumes "c \<in> set draws" "c \<noteq> 0" "map_index (waitingconns (mgr w)) c = None"
    "map_index (runningconns (mgr w)) c = None" "waitingconns (mgr w) \<noteq> NilMap"
  shows "\<exists>c' rest w'. newCID a draws w = Some (Returns c', rest, w')"
proof -
  from newCID_loop_progress[OF assms(1-4)] obtain c' rest where "newCID_loop (mgr w) draws = Some (c', rest)"
    by blast
  with assms(5) show ?thesis
    by (cases "waitingconns (mgr w)") (auto simp: newCID_def)
qed

text \<open>
  Claim C6. Whenever \<^verbatim>\<open>newCID\<close> returns an id, the id is not 0 and was in
  neither the waiting nor the running map when \<^verbatim>\<open>newCID\<close> was called. The
  same transition that checked the id has put it into the waiting map (the
  check and the insertion are one critical section of the source, one step of
  the model), so no draw made on the state it leaves returns that id again.
\<close>

theorem newCID_fresh:
  assumes "newCID a draws w = Some (Returns c, rest, w')"
  shows "c \<noteq> 0 \<and> map_index (waitingconns (mgr w)) c = None \<and> map_index (runningconns (mgr w)) c = None
       \<and> map_index (waitingconns (mgr w')) c = Some a
       \<and> (\<forall>b draws2 c2 rest2 w2. newCID b draws2 w' = Some (Returns c2, rest2, w2) \<longrightarrow> c2 \<noteq> c)"
proof -
  have later: "c2 \<noteq> c" if "newCID b draws2 w' = Some (Returns c2, rest2, w2)" for b draws2 c2 rest2 w2
  proof
    assume "c2 = c"
    with newCID_Returns(2)[OF that] have "map_index (waitingconns (mgr w')) c = None" by simp
    with newCID_Returns(4)[OF assms, of c] show False by simp
  qed
  with newCID_Returns[OF assms] show ?thesis by auto
qed

text \<open>
  On a manager whose maps exist, with the draws 0, 7, 7, 9: the first call
  skips 0 and returns 7, the second skips 7 and returns 9.
\<close>

theorem newCID_fresh_witness:
  "newCID 0 [0, 7, 7, 9] (world madeManager) =
     Some (Returns 7, [7, 9], world (madeManager\<lparr>waitingconns := GoMap [7 \<mapsto> 0]\<rparr>))
   \<and> (7 :: cid) \<noteq> 0
   \<and> map_index (waitingconns (mgr (world madeManager))) (7 :: cid) = None
   \<and> map_index (runningconns (mgr (world madeManager))) (7 :: cid) = None
   \<and> map_index (waitingconns (mgr (world (madeManager\<lparr>waitingconns := GoMap [7 \<mapsto> 0]\<rparr>)))) (7 :: cid) = Some 0
   \<and> newCID 1 [7, 9] (world (madeManager\<lparr>waitingconns := GoMap [7 \<mapsto> 0]\<rparr>)) =
       Some (Returns 9, [], world (madeManager\<lparr>waitingconns := GoMap [7 \<mapsto> 0, 9 \<mapsto> 1]\<rparr>))
   \<and> (9 :: cid) \<noteq> 7"
proof -
  have first: "newCID 0 [0, 7, 7, 9] (world madeManager) =
     Some (Returns 7, [7, 9], world (madeManager\<lparr>waitingconns := GoMap [7 \<mapsto> 0]\<rparr>))"
    by (simp add: newCID_def world_def madeManager_def)
  have second: "newCID 1 [7, 9] (world (madeManager\<lparr>waitingconns := GoMap [7 \<mapsto> 0]\<rparr>)) =
       Some (Returns 9, [], world (madeManager\<lparr>waitingconns := GoMap [7 \<mapsto> 0, 9 \<mapsto> 1]\<rparr>))"
    by (simp add: newCID_def world_def madeManager_def)
  from newCID_fresh[OF first] first second show ?thesis by simp
qed

lemma Connect_success:
  assumes "Connect a dst draws None w = Some (Returns (Inr c), rest, w1)"
  shows "map_index (waitingconns (mgr w1)) c = Some a" "runningconns (mgr w1) = runningconns (mgr w)"
    "c \<noteq> 0" "map_index (runningconns (mgr w)) c = None"
proof -
  from assms obtain w0 where drawn: "newCID a draws w = Some (Returns c, rest, w0)"
    and w1: "w1 = emit (Go (RemoveAfter30 c dst)) (emit (CallAllocationConnect a c dst None) w0)"
    by (auto simp: Connect_def Let_def split: option.splits prod.splits outcome.splits)
  from newCID_Returns[OF drawn] w1
  show "map_index (waitingconns (mgr w1)) c = Some a" "runningconns (mgr w1) = runningconns (mgr w)"
    "c \<noteq> 0" "map_index (runningconns (mgr w)) c = None" by auto
qed

text \<open>
  Claim C1. The claim is that a failing \<^verbatim>\<open>connect\<close> step leaves no id
  registered. The code does otherwise: whenever \<^verbatim>\<open>Connect\<close> returns because
  the allocation's \<^verbatim>\<open>connect\<close> failed, the error is returned, and the id that
  \<^verbatim>\<open>newCID\<close> drew for the attempt (the one \<^verbatim>\<open>connect\<close> was called with)
  is still in the waiting map, bound to the allocation; it was not there
  before, and no \<^verbatim>\<open>removeAfter30\<close> has been started for it.
\<close>

theorem Connect_failure_keeps_id:
  assumes "Connect a dst draws (Some err) w = Some (Returns r, rest, w')"
  shows "r = Inl err \<and>
         (\<exists>c. c \<noteq> 0
            \<and> map_index (waitingconns (mgr w)) c = None
            \<and> map_index (waitingconns (mgr w')) c = Some a
            \<and> trace w' = trace w @ [CallAllocationConnect a c dst (Some err)])"
proof -
  from assms obtain c w1 where drawn: "newCID a draws w = Some (Returns c, rest, w1)"
    and r: "r = Inl err" and w': "w' = emit (CallAllocationConnect a c dst (Some err)) w1"
    by (auto simp: Connect_def Let_def split: option.splits prod.splits outcome.splits)
  from newCID_Returns[OF drawn] w' r show ?thesis by auto
qed

text \<open>
  A manager whose maps exist and are empty, the draw 7, a refused connection:
  \<^verbatim>\<open>Connect\<close> returns the error and the waiting map holds 7.
\<close>

theorem Connect_failure_keeps_id_witness:
  "Connect 0 ''peer'' [7] (Some (External ''refused'')) (world madeManager) =
     Some (Returns (Inl (External ''refused'')), [],
           \<lparr> mgr = madeManager\<lparr>waitingconns := GoMap [7 \<mapsto> 0]\<rparr>, heap = [],
             trace = [CallAllocationConnect 0 7 ''peer'' (Some (External ''refused''))] \<rparr>)
   \<and> (\<exists>c. c \<noteq> 0
         \<and> map_index (waitingconns (mgr (world madeManager))) c = None
         \<and> map_index (waitingconns (mgr \<lparr> mgr = madeManager\<lparr>waitingconns := GoMap [7 \<mapsto> 0]\<rparr>, heap = [],
             trace = [CallAllocationConnect 0 7 ''peer'' (Some (External ''refused''))] \<rparr>)) c = Some 0
         \<and> trace \<lparr> mgr = madeManager\<lparr>waitingconns := GoMap [7 \<mapsto> 0]\<rparr>, heap = [],
             trace = [CallAllocationConnect 0 7 ''peer'' (Some (External ''refused''))] \<rparr>
           = trace (world madeManager) @ [CallAllocationConnect 0 c ''peer'' (Some (External ''refused''))])"
proof -
  have run: "Connect 0 ''peer'' [7] (Some (External ''refused'')) (world madeManager) =
     Some (Returns (Inl (External ''refused'')), [],
           \<lparr> mgr = madeManager\<lparr>waitingconns := GoMap [7 \<mapsto> 0]\<rparr>, heap = [],
             trace = [CallAllocationConnect 0 7 ''peer'' (Some (External ''refused''))] \<rparr>)"
    by (simp add: Connect_def newCID_def world_def madeManager_def emit_def)
  from Connect_failure_keeps_id[OF run] run show ?thesis by simp
qed

lemma NewManager_maps:
  "NewManager config = Inr m \<Longrightarrow>
     waitingconns m = NilMap \<and> runningconns m = NilMap \<and> allocations m = GoMap Map.empty \<and> reservations m = []"
  by (auto simp: NewManager_def split: option.splits)

lemma newCID_nil_waiting:
  "waitingconns (mgr w) = NilMap \<Longrightarrow> newCID a draws w \<noteq> Some (Returns c, rest, w')"
  by (auto simp: newCID_def split: option.splits prod.splits)

text \<open>
  Claim C2. The claim is that \<^verbatim>\<open>NewManager\<close> initialises the connection-id
  maps, so that \<^verbatim>\<open>Connect\<close> and \<^verbatim>\<open>BindConnection\<close> run without a run-time
  failure. The code does otherwise: \<^verbatim>\<open>NewManager\<close> makes the directory only
  and leaves \<^verbatim>\<open>waitingconns\<close> and \<^verbatim>\<open>runningconns\<close> nil. On the manager it
  returns \<^verbatim>\<open>Connect\<close> never returns: as soon as a draw is not 0, the
  insertion into the waiting map panics. \<^verbatim>\<open>BindConnection\<close> on that manager
  finds no id waiting, returns none and never reaches its own insertion.
\<close>

theorem NewManager_Connect_panics:
  assumes "NewManager config = Inr m" and "mgr w = m"
  shows "waitingconns m = NilMap \<and> runningconns m = NilMap
       \<and> (\<forall>r rest w'. Connect a dst draws connected w \<noteq> Some (Returns r, rest, w'))
       \<and> (c \<noteq> 0 \<longrightarrow> Connect a dst (c # draws) connected w = Some (Panics NilMapAssignment, draws, w))
       \<and> BindConnection getConn c w = (Returns None, w)"
proof -
  from NewManager_maps[OF assms(1)] assms(2)
  have nil: "waitingconns (mgr w) = NilMap" "runningconns (mgr w) = NilMap" by simp_all
  have never: "Connect a dst draws connected w \<noteq> Some (Returns r, rest, w')" for r rest w'
    using newCID_nil_waiting[OF nil(1), of a draws]
    by (auto simp: Connect_def Let_def split: option.splits prod.splits outcome.splits)
  have panics: "Connect a dst (c # draws) connected w = Some (Panics NilMapAssignment, draws, w)" if "c \<noteq> 0"
    using that nil by (simp add: Connect_def newCID_def)
  have bind: "BindConnection getConn c w = (Returns None, w)"
    using nil by (simp add: BindConnection_def)
  from nil assms(2) never panics bind show ?thesis by auto
qed

text \<open>
  The manager that \<^verbatim>\<open>NewManager\<close> builds from a full configuration, and the
  first \<^verbatim>\<open>Connect\<close> on it, with the draw 7.
\<close>

theorem NewManager_Connect_panics_witness:
  "NewManager sampleConfig = Inr (madeManager\<lparr>waitingconns := NilMap, runningconns := NilMap\<rparr>)
   \<and> Connect 0 ''peer'' [7] None (world (madeManager\<lparr>waitingconns := NilMap, runningconns := NilMap\<rparr>))
        = Some (Panics NilMapAssignment, [], world (madeManager\<lparr>waitingconns := NilMap, runningconns := NilMap\<rparr>))"
proof -
  have made: "NewManager sampleConfig = Inr (madeManager\<lparr>waitingconns := NilMap, runningconns := NilMap\<rparr>)"
    by (simp add: NewManager_def sampleConfig_def madeManager_def)
  have "mgr (world (madeManager\<lparr>waitingconns := NilMap, runningconns := NilMap\<rparr>))
          = madeManager\<lparr>waitingconns := NilMap, runningconns := NilMap\<rparr>"
    by (simp add: world_def)
  from NewManager_Connect_panics[OF made this, where a = 0 and dst = "''peer''" and draws = "[]"
      and connected = None and c = 7] made
  show ?thesis by simp
qed

text \<open>
  What \<^verbatim>\<open>BindConnection\<close> does when the running map exists: the first call
  on a waiting id returns what the allocation's \<^verbatim>\<open>GetConnectionByID\<close> gives
  and moves the id to the running map; a second call returns none. In every
  case the id is gone from the waiting map afterwards.
\<close>

lemma BindConnection_moves:
  assumes "map_index (waitingconns (mgr w1)) c = Some a" and "runningconns (mgr w1) \<noteq> NilMap"
    and "BindConnection getConn c w1 = (r, w2)"
  shows "r = Returns (getConn a c)" "map_index (waitingconns (mgr w2)) c = None"
     "map_index (runningconns (mgr w2)) c = Some a"
     "BindConnection getConn c w2 = (Returns None, w2)"
  using assms
  by (cases "runningconns (mgr w1)"; cases "waitingconns (mgr w1)"; auto simp: BindConnection_def Let_def)+

lemma BindConnection_erases:
  "map_index (waitingconns (mgr (snd (BindConnection getConn c w)))) c = None"
  by (auto simp: BindConnection_def Let_def split: option.splits)

lemma Connect_then_BindConnection:
  assumes "Connect a dst draws None w = Some (Returns (Inr c), rest, w1)"
    and "runningconns (mgr w) \<noteq> NilMap" and "BindConnection getConn c w1 = (r, w2)"
  shows "r = Returns (getConn a c)" "map_index (waitingconns (mgr w2)) c = None"
    "map_index (runningconns (mgr w2)) c = Some a" "BindConnection getConn c w2 = (Returns None, w2)"
  using BindConnection_moves[of w1 c a getConn r w2] Connect_success(1,2)[OF assms(1)] assms(2,3)
  by simp_all

text \<open>
  Claim C5. On a manager whose running map exists, for an id that
  \<^verbatim>\<open>Connect\<close> has put into the waiting map and an allocation that holds
  the connection it established under that id: the first
  \<^verbatim>\<open>BindConnection\<close> on the id returns that connection, the id is then
  in the running map and no longer in the waiting map, and a second
  \<^verbatim>\<open>BindConnection\<close> on the id returns none and changes nothing.
  Whatever the state and the id, the id is not in the waiting map after
  \<^verbatim>\<open>BindConnection\<close>. (With the maps nil, as \<^verbatim>\<open>NewManager\<close> leaves
  them, \<^verbatim>\<open>Connect\<close> places no id at all: claim C2.) The statement is about
  one call run alone: the source holds only the read lock here.
\<close>

theorem Connect_then_BindConnection_once:
  assumes "Connect a dst draws None w = Some (Returns (Inr c), rest, w1)"
    and "runningconns (mgr w) \<noteq> NilMap"
    and "getConn a c = Some h"
  shows "fst (BindConnection getConn c w1) = Returns (Some h)
       \<and> map_index (waitingconns (mgr (snd (BindConnection getConn c w1)))) c = None
       \<and> map_index (runningconns (mgr (snd (BindConnection getConn c w1)))) c = Some a
       \<and> BindConnection getConn c (snd (BindConnection getConn c w1))
           = (Returns None, snd (BindConnection getConn c w1))
       \<and> map_index (waitingconns (mgr (snd (BindConnection getConn c' w')))) c' = None"
proof -
  obtain r w2 where bind: "BindConnection getConn c w1 = (r, w2)"
    by (cases "BindConnection getConn c w1")
  from Connect_then_BindConnection[OF assms(1,2) bind] assms(3) bind BindConnection_erases[of getConn c' w']
  show ?thesis by simp
qed

text \<open>
  Both maps made and empty, the draw 7: \<^verbatim>\<open>Connect\<close> returns 7, the first
  \<^verbatim>\<open>BindConnection\<close> returns the connection 5 and moves 7 to the running
  map, the second returns none.
\<close>

theorem Connect_then_BindConnection_once_witness:
  "Connect 0 ''peer'' [7] None (world madeManager) =
     Some (Returns (Inr 7), [],
           \<lparr> mgr = madeManager\<lparr>waitingconns := GoMap [7 \<mapsto> 0]\<rparr>, heap = [],
             trace = [CallAllocationConnect 0 7 ''peer'' None, Go (RemoveAfter30 7 ''peer'')] \<rparr>)
   \<and> runningconns (mgr (world madeManager)) \<noteq> NilMap
   \<and> sampleConn 0 7 = Some 5
   \<and> BindConnection sampleConn 7
        \<lparr> mgr = madeManager\<lparr>waitingconns := GoMap [7 \<mapsto> 0]\<rparr>, heap = [],
             trace = [CallAllocationConnect 0 7 ''peer'' None, Go (RemoveAfter30 7 ''peer'')] \<rparr>
      = (Returns (Some 5),
         \<lparr> mgr = madeManager\<lparr>runningconns := GoMap [7 \<mapsto> 0]\<rparr>, heap = [],
             trace = [CallAllocationConnect 0 7 ''peer'' None, Go (RemoveAfter30 7 ''peer'')] \<rparr>)
   \<and> BindConnection sampleConn 7
         \<lparr> mgr = madeManager\<lparr>runningconns := GoMap [7 \<mapsto> 0]\<rparr>, heap = [],
             trace = [CallAllocationConnect 0 7 ''peer'' None, Go (RemoveAfter30 7 ''peer'')] \<rparr>
      = (Returns None,
         \<lparr> mgr = madeManager\<lparr>runningconns := GoMap [7 \<mapsto> 0]\<rparr>, heap = [],
             trace = [CallAllocationConnect 0 7 ''peer'' None, Go (RemoveAfter30 7 ''peer'')] \<rparr>)"
proof -
  have run: "Connect 0 ''peer'' [7] None (world madeManager) =
     Some (Returns (Inr 7), [],
           \<lparr> mgr = madeManager\<lparr>waitingconns := GoMap [7 \<mapsto> 0]\<rparr>, heap = [],
             trace = [CallAllocationConnect 0 7 ''peer'' None, Go (RemoveAfter30 7 ''peer'')] \<rparr>)"
    by (simp add: Connect_def newCID_def world_def madeManager_def emit_def)
  have made: "runningconns (mgr (world madeManager)) \<noteq> NilMap"
    by (simp add: world_def madeManager_def)
  have holds: "sampleConn 0 7 = Some 5"
    by (simp add: sampleConn_def)
  have bind: "BindConnection sampleConn 7
        \<lparr> mgr = madeManager\<lparr>waitingconns := GoMap [7 \<mapsto> 0]\<rparr>, heap = [],
             trace = [CallAllocationConnect 0 7 ''peer'' None, Go (RemoveAfter30 7 ''peer'')] \<rparr>
      = (Returns (Some 5),
         \<lparr> mgr = madeManager\<lparr>runningconns := GoMap [7 \<mapsto> 0]\<rparr>, heap = [],
             trace = [CallAllocationConnect 0 7 ''peer'' None, Go (RemoveAfter30 7 ''peer'')] \<rparr>)"
    by (simp add: BindConnection_def madeManager_def sampleConn_def)
  from Connect_then_BindConnection_once[where getConn = sampleConn, OF run made holds] run made holds bind
  show ?thesis by simp
qed

subsection \<open>The directory of allocations\<close>

lemma register_cases:
  assumes "register Fingerprint t a relayAddr lifetime task w = (r, w')"
  shows "(r = Returns (Inr a) \<and> map_index (allocations (mgr w')) (Fingerprint t) = Some a
            \<and> allocations (mgr w) \<noteq> NilMap)
       \<or> (r = Panics NilMapAssignment \<and> mgr w' = mgr w \<and> allocations (mgr w) = NilMap)"
  using assms
  by (cases "allocations (mgr w)") (auto simp: register_def Let_def)

lemma map_delete_absent: "map_index m k = None \<Longrightarrow> map_delete m k = m"
  by (cases m) auto

lemma DeleteAllocation_absent:
  "GetAllocation Fingerprint (mgr w) t = None \<Longrightarrow> DeleteAllocation Fingerprint t closed w = w"
  by (simp add: DeleteAllocation_def GetAllocation_def Let_def map_delete_absent)

lemma GetAllocation_DeleteAllocation [simp]:
  "GetAllocation Fingerprint (mgr (DeleteAllocation Fingerprint t closed w)) u =
     (if Fingerprint u = Fingerprint t then None else GetAllocation Fingerprint (mgr w) u)"
  by (simp add: DeleteAllocation_def GetAllocation_def Let_def split: option.splits)

lemma sampleCreated_eval:
  "lifetime \<noteq> 0 \<Longrightarrow> sampleCreated lifetime =
     (Returns (Inr 0),
      \<lparr> mgr = madeManager\<lparr>allocations := GoMap [''0_client_server'' \<mapsto> 0]\<rparr>,
        heap = [\<lparr> fiveTuple = sampleTuple UDP, TurnSocket = 4, RelaySocket = Some 8, RelayListener = None,
                  RelayAddr = Some (UDPAddr 49152), lifetimeTimer = Some (lifetime, LifetimeExpired 0) \<rparr>],
        trace = [CallAllocatePacketConn ''udp4'' 0 (CapGives 8 (UDPAddr 49152)),
                 LogDebugf ''listening on relay addr: %s'' (UDPAddr 49152),
                 AfterFunc lifetime (LifetimeExpired 0), Go (PacketHandler 0)] \<rparr>)"
  by (simp add: sampleCreated_def CreateAllocation_def GetAllocation_def NewAllocation_def register_def
        modify_def emit_def world_def madeManager_def sampleTuple_def sampleFingerprint_def)

lemma sampleCreated_600:
  "CreateAllocation sampleFingerprint (Some (sampleTuple UDP)) (Some 4) 0 600
       (CapGives 8 (UDPAddr 49152)) (world madeManager) = (Returns (Inr 0), snd (sampleCreated 600))"
  "GetAllocation sampleFingerprint (mgr (snd (sampleCreated 600))) (sampleTuple UDP) = Some 0"
  "trace (snd (sampleCreated 600)) =
     [CallAllocatePacketConn ''udp4'' 0 (CapGives 8 (UDPAddr 49152)),
      LogDebugf ''listening on relay addr: %s'' (UDPAddr 49152),
      AfterFunc 600 (LifetimeExpired 0), Go (PacketHandler 0)]"
  using sampleCreated_eval[of 600]
  by (simp_all add: sampleCreated_def GetAllocation_def sampleFingerprint_def sampleTuple_def)

lemma sampleTuple_simps [simp]:
  "SrcAddr (sampleTuple pr) \<noteq> None" "DstAddr (sampleTuple pr) \<noteq> None" "Protocol (sampleTuple pr) = pr"
  by (simp_all add: sampleTuple_def)

text \<open>
  When every check passes, the directory exists and the capability gives a
  connection, \<^verbatim>\<open>CreateAllocation\<close> returns a new allocation.
\<close>

lemma CreateAllocation_succeeds:
  assumes "SrcAddr t \<noteq> None" "DstAddr t \<noteq> None" "lifetime \<noteq> 0" "GetAllocation Fingerprint (mgr w) t = None"
    "allocations (mgr w) \<noteq> NilMap" "Protocol t = UDP \<or> Protocol t = TCP \<and> allocateConn (mgr w) \<noteq> None"
  shows "\<exists>w'. CreateAllocation Fingerprint (Some t) (Some sock) requestedPort lifetime (CapGives h relayAddr) w
           = (Returns (Inr (length (heap w))), w')"
  using assms
  by (cases "allocations (mgr w)")
     (auto simp: CreateAllocation_def NewAllocation_def register_def Let_def)

text \<open>
  Claim C3, as amended. \<^verbatim>\<open>CreateAllocation\<close> checks its preconditions in the
  order nil tuple, nil source address, nil destination address, nil client
  socket, lifetime equal to 0, duplicate tuple; the first one that fails
  decides the error, the six errors are pairwise different, and the world is
  left exactly as it was, so in the duplicate case the existing allocation is
  still what \<^verbatim>\<open>GetAllocation\<close> returns. The lifetime check is
  \<^verbatim>\<open>lifetime == 0\<close>: a negative lifetime is not rejected.
\<close>

theorem CreateAllocation_rejects:
  "(tuple = None \<longrightarrow>
      CreateAllocation Fingerprint tuple turnSocket requestedPort lifetime resp w =
        (Returns (Inl (Errorf ''allocations must not be created with nil FivTuple'')), w))
 \<and> (tuple = Some t \<and> SrcAddr t = None \<longrightarrow>
      CreateAllocation Fingerprint tuple turnSocket requestedPort lifetime resp w =
        (Returns (Inl (Errorf ''allocations must not be created with nil FiveTuple.SrcAddr'')), w))
 \<and> (tuple = Some t \<and> SrcAddr t \<noteq> None \<and> DstAddr t = None \<longrightarrow>
      CreateAllocation Fingerprint tuple turnSocket requestedPort lifetime resp w =
        (Returns (Inl (Errorf ''allocations must not be created with nil FiveTuple.DstAddr'')), w))
 \<and> (tuple = Some t \<and> SrcAddr t \<noteq> None \<and> DstAddr t \<noteq> None \<and> turnSocket = None \<longrightarrow>
      CreateAllocation Fingerprint tuple turnSocket requestedPort lifetime resp w =
        (Returns (Inl (Errorf ''allocations must not be created with nil turnSocket'')), w))
 \<and> (tuple = Some t \<and> SrcAddr t \<noteq> None \<and> DstAddr t \<noteq> None \<and> turnSocket \<noteq> None \<and> lifetime = 0 \<longrightarrow>
      CreateAllocation Fingerprint tuple turnSocket requestedPort lifetime resp w =
        (Returns (Inl (Errorf ''allocations must not be created with a lifetime of 0'')), w))
 \<and> (tuple = Some t \<and> SrcAddr t \<noteq> None \<and> DstAddr t \<noteq> None \<and> turnSocket \<noteq> None \<and> lifetime \<noteq> 0
      \<and> GetAllocation Fingerprint (mgr w) t = Some a \<longrightarrow>
      CreateAllocation Fingerprint tuple turnSocket requestedPort lifetime resp w =
        (Returns (Inl (ErrorfTuple ''allocation attempt created with duplicate FiveTuple %v'' t)), w)
      \<and> GetAllocation Fingerprint (mgr (snd (CreateAllocation Fingerprint tuple turnSocket requestedPort lifetime resp w))) t
          = Some a)
 \<and> ((tuple = None \<or> turnSocket = None \<or> lifetime = 0
       \<or> (\<exists>u. tuple = Some u \<and> (SrcAddr u = None \<or> DstAddr u = None \<or> GetAllocation Fingerprint (mgr w) u \<noteq> None)))
      \<longrightarrow> (\<exists>e. CreateAllocation Fingerprint tuple turnSocket requestedPort lifetime resp w = (Returns (Inl e), w)))
 \<and> distinct
      [Errorf ''allocations must not be created with nil FivTuple'',
       Errorf ''allocations must not be created with nil FiveTuple.SrcAddr'',
       Errorf ''allocations must not be created with nil FiveTuple.DstAddr'',
       Errorf ''allocations must not be created with nil turnSocket'',
       Errorf ''allocations must not be created with a lifetime of 0'',
       ErrorfTuple ''allocation attempt created with duplicate FiveTuple %v'' t]"
proof -
  have any: "\<exists>e. CreateAllocation Fingerprint tuple turnSocket requestedPort lifetime resp w = (Returns (Inl e), w)"
    if "tuple = None \<or> turnSocket = None \<or> lifetime = 0
       \<or> (\<exists>u. tuple = Some u \<and> (SrcAddr u = None \<or> DstAddr u = None \<or> GetAllocation Fingerprint (mgr w) u \<noteq> None))"
    using that by (auto simp: CreateAllocation_def split: option.splits)
  have each: "tuple = None \<longrightarrow>
      CreateAllocation Fingerprint tuple turnSocket requestedPort lifetime resp w =
        (Returns (Inl (Errorf ''allocations must not be created with nil FivTuple'')), w)"
    "tuple = Some t \<and> SrcAddr t = None \<longrightarrow>
      CreateAllocation Fingerprint tuple turnSocket requestedPort lifetime resp w =
        (Returns (Inl (Errorf ''allocations must not be created with nil FiveTuple.SrcAddr'')), w)"
    "tuple = Some t \<and> SrcAddr t \<noteq> None \<and> DstAddr t = None \<longrightarrow>
      CreateAllocation Fingerprint tuple turnSocket requestedPort lifetime resp w =
        (Returns (Inl (Errorf ''allocations must not be created with nil FiveTuple.DstAddr'')), w)"
    "tuple = Some t \<and> SrcAddr t \<noteq> None \<and> DstAddr t \<noteq> None \<and> turnSocket = None \<longrightarrow>
      CreateAllocation Fingerprint tuple turnSocket requestedPort lifetime resp w =
        (Returns (Inl (Errorf ''allocations must not be created with nil turnSocket'')), w)"
    "tuple = Some t \<and> SrcAddr t \<noteq> None \<and> DstAddr t \<noteq> None \<and> turnSocket \<noteq> None \<and> lifetime = 0 \<longrightarrow>
      CreateAllocation Fingerprint tuple turnSocket requestedPort lifetime resp w =
        (Returns (Inl (Errorf ''allocations must not be created with a lifetime of 0'')), w)"
    "tuple = Some t \<and> SrcAddr t \<noteq> None \<and> DstAddr t \<noteq> None \<and> turnSocket \<noteq> None \<and> lifetime \<noteq> 0
      \<and> GetAllocation Fingerprint (mgr w) t = Some a \<longrightarrow>
      CreateAllocation Fingerprint tuple turnSocket requestedPort lifetime resp w =
        (Returns (Inl (ErrorfTuple ''allocation attempt created with duplicate FiveTuple %v'' t)), w)
      \<and> GetAllocation Fingerprint (mgr (snd (CreateAllocation Fingerprint tuple turnSocket requestedPort lifetime resp w))) t
          = Some a"
    by (auto simp: CreateAllocation_def)
  have different: "distinct
      [Errorf ''allocations must not be created with nil FivTuple'',
       Errorf ''allocations must not be created with nil FiveTuple.SrcAddr'',
       Errorf ''allocations must not be created with nil FiveTuple.DstAddr'',
       Errorf ''allocations must not be created with nil turnSocket'',
       Errorf ''allocations must not be created with a lifetime of 0'',
       ErrorfTuple ''allocation attempt created with duplicate FiveTuple %v'' t]"
    by simp
  from any each different show ?thesis by blast
qed

text \<open>
  The six checks at work: a duplicate of the sample allocation, a nil tuple
  and a lifetime of 0 are refused with their errors, and the world stays as it
  was.
\<close>

theorem CreateAllocation_rejects_witness:
  "GetAllocation sampleFingerprint (mgr (snd (sampleCreated 600))) (sampleTuple UDP) = Some 0
 \<and> CreateAllocation sampleFingerprint (Some (sampleTuple UDP)) (Some 4) 0 600 (CapGives 9 (UDPAddr 49154))
      (snd (sampleCreated 600))
    = (Returns (Inl (ErrorfTuple ''allocation attempt created with duplicate FiveTuple %v'' (sampleTuple UDP))),
       snd (sampleCreated 600))
 \<and> CreateAllocation sampleFingerprint None (Some 4) 0 600 (CapGives 9 (UDPAddr 49154)) (world madeManager)
    = (Returns (Inl (Errorf ''allocations must not be created with nil FivTuple'')), world madeManager)
 \<and> CreateAllocation sampleFingerprint (Some (sampleTuple UDP)) (Some 4) 0 0 (CapGives 9 (UDPAddr 49154))
      (world madeManager)
    = (Returns (Inl (Errorf ''allocations must not be created with a lifetime of 0'')), world madeManager)"
  using sampleCreated_600(2)
    CreateAllocation_rejects[where Fingerprint = sampleFingerprint and tuple = "Some (sampleTuple UDP)"
      and t = "sampleTuple UDP" and turnSocket = "Some 4" and requestedPort = 0 and lifetime = 600
      and resp = "CapGives 9 (UDPAddr 49154)" and w = "snd (sampleCreated 600)" and a = 0]
    CreateAllocation_rejects[where Fingerprint = sampleFingerprint and tuple = None
      and t = "sampleTuple UDP" and turnSocket = "Some 4" and requestedPort = 0 and lifetime = 600
      and resp = "CapGives 9 (UDPAddr 49154)" and w = "world madeManager" and a = 0]
    CreateAllocation_rejects[where Fingerprint = sampleFingerprint and tuple = "Some (sampleTuple UDP)"
      and t = "sampleTuple UDP" and turnSocket = "Some 4" and requestedPort = 0 and lifetime = 0
      and resp = "CapGives 9 (UDPAddr 49154)" and w = "world madeManager" and a = 0]
  by simp

text \<open>
  Claim C3 as stated has "any lifetime that is not greater than 0". With the
  lifetime -1 and everything else in order, \<^verbatim>\<open>CreateAllocation\<close> returns
  an allocation, registers it and arms its timer with -1.
\<close>

theorem CreateAllocation_negative_lifetime:
  "fst (CreateAllocation sampleFingerprint (Some (sampleTuple UDP)) (Some 4) 0 (- 1)
          (CapGives 8 (UDPAddr 49152)) (world madeManager)) = Returns (Inr 0)
 \<and> GetAllocation sampleFingerprint
      (mgr (snd (CreateAllocation sampleFingerprint (Some (sampleTuple UDP)) (Some 4) 0 (- 1)
                   (CapGives 8 (UDPAddr 49152)) (world madeManager))))
      (sampleTuple UDP) = Some 0
 \<and> trace (snd (CreateAllocation sampleFingerprint (Some (sampleTuple UDP)) (Some 4) 0 (- 1)
                   (CapGives 8 (UDPAddr 49152)) (world madeManager))) =
     [CallAllocatePacketConn ''udp4'' 0 (CapGives 8 (UDPAddr 49152)),
      LogDebugf ''listening on relay addr: %s'' (UDPAddr 49152),
      AfterFunc (- 1) (LifetimeExpired 0), Go (PacketHandler 0)]"
  using sampleCreated_eval[of "- 1"]
  by (simp add: sampleCreated_def GetAllocation_def sampleFingerprint_def sampleTuple_def)

text \<open>
  Claim C7. For a tuple whose protocol is UDP or TCP, when
  \<^verbatim>\<open>CreateAllocation\<close> returns an allocation, \<^verbatim>\<open>GetAllocation\<close> on the
  same tuple returns that very allocation (the same address). After
  \<^verbatim>\<open>DeleteAllocation\<close> on a tuple, \<^verbatim>\<open>GetAllocation\<close> on it returns none.
\<close>

theorem CreateAllocation_then_Get:
  "(CreateAllocation Fingerprint (Some t) turnSocket requestedPort lifetime resp w = (Returns (Inr a), w')
      \<and> (Protocol t = UDP \<or> Protocol t = TCP)
     \<longrightarrow> GetAllocation Fingerprint (mgr w') t = Some a)
   \<and> GetAllocation Fingerprint (mgr (DeleteAllocation Fingerprint t closed w)) t = None"
proof -
  have created: "GetAllocation Fingerprint (mgr w') t = Some a"
    if run: "CreateAllocation Fingerprint (Some t) turnSocket requestedPort lifetime resp w = (Returns (Inr a), w')"
      and proto: "Protocol t = UDP \<or> Protocol t = TCP"
  proof -
    from run obtain w0 addr task a0 where "register Fingerprint t a0 addr lifetime task w0 = (Returns (Inr a), w')"
      using proto
      by (auto simp: CreateAllocation_def Let_def NewAllocation_def
               split: option.splits if_splits prod.splits response.splits Protocol.splits)
    from register_cases[OF this] show ?thesis by (auto simp: GetAllocation_def)
  qed
  have deleted: "GetAllocation Fingerprint (mgr (DeleteAllocation Fingerprint t closed w)) t = None"
    by simp
  from created deleted show ?thesis by blast
qed

text \<open>
  The sample allocation is created, found, and gone after its deletion.
\<close>

theorem CreateAllocation_then_Get_witness:
  "CreateAllocation sampleFingerprint (Some (sampleTuple UDP)) (Some 4) 0 600
       (CapGives 8 (UDPAddr 49152)) (world madeManager) = (Returns (Inr 0), snd (sampleCreated 600))
 \<and> Protocol (sampleTuple UDP) = UDP
 \<and> GetAllocation sampleFingerprint (mgr (snd (sampleCreated 600))) (sampleTuple UDP) = Some 0
 \<and> GetAllocation sampleFingerprint
      (mgr (DeleteAllocation sampleFingerprint (sampleTuple UDP) None (snd (sampleCreated 600)))) (sampleTuple UDP) = None"
  using sampleCreated_600(1)
    CreateAllocation_then_Get[where Fingerprint = sampleFingerprint and t = "sampleTuple UDP"
      and turnSocket = "Some 4" and requestedPort = 0 and lifetime = 600 and resp = "CapGives 8 (UDPAddr 49152)"
      and w = "world madeManager" and a = 0 and w' = "snd (sampleCreated 600)"]
    CreateAllocation_then_Get[where Fingerprint = sampleFingerprint and t = "sampleTuple UDP"
      and turnSocket = "Some 4" and requestedPort = 0 and lifetime = 600 and resp = "CapGives 8 (UDPAddr 49152)"
      and w = "snd (sampleCreated 600)" and a = 0 and w' = "snd (sampleCreated 600)" and closed = None]
  by simp

text \<open>
  Claim C8. When the capability that \<^verbatim>\<open>CreateAllocation\<close> calls fails, the
  manager is left exactly as it was: directory, reservations and both
  connection maps. If the arguments pass the checks and the protocol selects a
  capability that is set, the result is the capability's error, and the only
  effect is the call itself: no timer is armed and no task is started.
\<close>

theorem CreateAllocation_capability_fails:
  assumes "CreateAllocation Fingerprint tuple turnSocket requestedPort lifetime (CapFails err) w = (r, w')"
  shows "mgr w' = mgr w
       \<and> (\<forall>t. tuple = Some t \<and> SrcAddr t \<noteq> None \<and> DstAddr t \<noteq> None \<and> turnSocket \<noteq> None \<and> lifetime \<noteq> 0
              \<and> GetAllocation Fingerprint (mgr w) t = None
              \<and> (Protocol t = UDP \<or> Protocol t = TCP \<and> allocateConn (mgr w) \<noteq> None)
            \<longrightarrow> r = Returns (Inl err)
              \<and> trace w' = trace w @
                  [if Protocol t = UDP then CallAllocatePacketConn ''udp4'' requestedPort (CapFails err)
                   else CallAllocateConn ''tcp4'' requestedPort (CapFails err)])"
  using assms
  by (auto simp: CreateAllocation_def Let_def NewAllocation_def
           split: option.splits if_splits Protocol.splits)

text \<open>
  The capability fails on a valid UDP request and on a valid TCP request: the
  error is returned and the manager is the one before the call.
\<close>

theorem CreateAllocation_capability_fails_witness:
  "CreateAllocation sampleFingerprint (Some (sampleTuple UDP)) (Some 4) 0 600
       (CapFails (External ''no port left'')) (world madeManager) =
     (Returns (Inl (External ''no port left'')),
      \<lparr> mgr = madeManager,
        heap = [\<lparr> fiveTuple = sampleTuple UDP, TurnSocket = 4, RelaySocket = None, RelayListener = None,
                  RelayAddr = None, lifetimeTimer = None \<rparr>],
        trace = [CallAllocatePacketConn ''udp4'' 0 (CapFails (External ''no port left''))] \<rparr>)
 \<and> mgr \<lparr> mgr = madeManager,
        heap = [\<lparr> fiveTuple = sampleTuple UDP, TurnSocket = 4, RelaySocket = None, RelayListener = None,
                  RelayAddr = None, lifetimeTimer = None \<rparr>],
        trace = [CallAllocatePacketConn ''udp4'' 0 (CapFails (External ''no port left''))] \<rparr>
     = mgr (world madeManager)
 \<and> CreateAllocation sampleFingerprint (Some (sampleTuple TCP)) (Some 4) 0 600
       (CapFails (External ''no port left'')) (world madeManager) =
     (Returns (Inl (External ''no port left'')),
      \<lparr> mgr = madeManager,
        heap = [\<lparr> fiveTuple = sampleTuple TCP, TurnSocket = 4, RelaySocket = None, RelayListener = None,
                  RelayAddr = None, lifetimeTimer = None \<rparr>],
        trace = [CallAllocateConn ''tcp4'' 0 (CapFails (External ''no port left''))] \<rparr>)"
proof -
  have udp: "CreateAllocation sampleFingerprint (Some (sampleTuple UDP)) (Some 4) 0 600
       (CapFails (External ''no port left'')) (world madeManager) =
     (Returns (Inl (External ''no port left'')),
      \<lparr> mgr = madeManager,
        heap = [\<lparr> fiveTuple = sampleTuple UDP, TurnSocket = 4, RelaySocket = None, RelayListener = None,
                  RelayAddr = None, lifetimeTimer = None \<rparr>],
        trace = [CallAllocatePacketConn ''udp4'' 0 (CapFails (External ''no port left''))] \<rparr>)"
    by (simp add: CreateAllocation_def GetAllocation_def NewAllocation_def emit_def world_def madeManager_def)
  have tcp: "CreateAllocation sampleFingerprint (Some (sampleTuple TCP)) (Some 4) 0 600
       (CapFails (External ''no port left'')) (world madeManager) =
     (Returns (Inl (External ''no port left'')),
      \<lparr> mgr = madeManager,
        heap = [\<lparr> fiveTuple = sampleTuple TCP, TurnSocket = 4, RelaySocket = None, RelayListener = None,
                  RelayAddr = None, lifetimeTimer = None \<rparr>],
        trace = [CallAllocateConn ''tcp4'' 0 (CapFails (External ''no port left''))] \<rparr>)"
    by (simp add: CreateAllocation_def GetAllocation_def NewAllocation_def emit_def world_def madeManager_def)
  from CreateAllocation_capability_fails[OF udp] CreateAllocation_capability_fails[OF tcp] udp tcp
  show ?thesis by simp
qed

text \<open>
  Claim C9. \<^verbatim>\<open>DeleteAllocation\<close> has no result, so no error reaches its
  caller. After it the tuple has no entry in the directory; a second call
  changes nothing; with no entry for the tuple the first call changes nothing
  either. When there was an entry, the allocation's \<^verbatim>\<open>Close\<close> is called
  once, and an error it returns is logged. Entries under other fingerprints,
  the reservations, the connection maps and the allocation objects are left
  as they were.
\<close>

theorem DeleteAllocation_idempotent:
  "GetAllocation Fingerprint (mgr (DeleteAllocation Fingerprint t closed w)) t = None
 \<and> DeleteAllocation Fingerprint t closed' (DeleteAllocation Fingerprint t closed w)
      = DeleteAllocation Fingerprint t closed w
 \<and> (GetAllocation Fingerprint (mgr w) t = None \<longrightarrow> DeleteAllocation Fingerprint t closed w = w)
 \<and> (GetAllocation Fingerprint (mgr w) t = Some a \<longrightarrow>
      trace (DeleteAllocation Fingerprint t closed w) =
        trace w @ CallAllocationClose a closed #
          (case closed of None \<Rightarrow> [] | Some err \<Rightarrow> [LogErrorf ''Failed to close allocation: %v'' err]))
 \<and> (Fingerprint u \<noteq> Fingerprint t \<longrightarrow>
      GetAllocation Fingerprint (mgr (DeleteAllocation Fingerprint t closed w)) u = GetAllocation Fingerprint (mgr w) u)
 \<and> reservations (mgr (DeleteAllocation Fingerprint t closed w)) = reservations (mgr w)
 \<and> waitingconns (mgr (DeleteAllocation Fingerprint t closed w)) = waitingconns (mgr w)
 \<and> runningconns (mgr (DeleteAllocation Fingerprint t closed w)) = runningconns (mgr w)
 \<and> heap (DeleteAllocation Fingerprint t closed w) = heap w"
proof -
  have gone: "GetAllocation Fingerprint (mgr (DeleteAllocation Fingerprint t closed w)) t = None"
    by simp
  from DeleteAllocation_absent[OF gone]
  have again: "DeleteAllocation Fingerprint t closed' (DeleteAllocation Fingerprint t closed w)
      = DeleteAllocation Fingerprint t closed w" .
  have closes: "trace (DeleteAllocation Fingerprint t closed w) =
        trace w @ CallAllocationClose a closed #
          (case closed of None \<Rightarrow> [] | Some err \<Rightarrow> [LogErrorf ''Failed to close allocation: %v'' err])"
    if "GetAllocation Fingerprint (mgr w) t = Some a"
    using that by (simp add: DeleteAllocation_def GetAllocation_def Let_def split: option.splits)
  have frame: "reservations (mgr (DeleteAllocation Fingerprint t closed w)) = reservations (mgr w)"
    "waitingconns (mgr (DeleteAllocation Fingerprint t closed w)) = waitingconns (mgr w)"
    "runningconns (mgr (DeleteAllocation Fingerprint t closed w)) = runningconns (mgr w)"
    "heap (DeleteAllocation Fingerprint t closed w) = heap w"
    by (simp_all add: DeleteAllocation_def Let_def emit_def split: option.splits)
  from gone again closes frame DeleteAllocation_absent[of Fingerprint w t closed] show ?thesis
    by simp
qed

text \<open>
  Deleting the sample allocation when its \<^verbatim>\<open>Close\<close> fails, deleting it
  again, deleting from the empty directory, and deleting another tuple.
\<close>

theorem DeleteAllocation_idempotent_witness:
  "GetAllocation sampleFingerprint (mgr (snd (sampleCreated 600))) (sampleTuple UDP) = Some 0
 \<and> trace (DeleteAllocation sampleFingerprint (sampleTuple UDP) (Some (External ''busy'')) (snd (sampleCreated 600)))
     = trace (snd (sampleCreated 600)) @
         [CallAllocationClose 0 (Some (External ''busy'')),
          LogErrorf ''Failed to close allocation: %v'' (External ''busy'')]
 \<and> GetAllocation sampleFingerprint
      (mgr (DeleteAllocation sampleFingerprint (sampleTuple UDP) (Some (External ''busy'')) (snd (sampleCreated 600))))
      (sampleTuple UDP) = None
 \<and> DeleteAllocation sampleFingerprint (sampleTuple UDP) None
      (DeleteAllocation sampleFingerprint (sampleTuple UDP) (Some (External ''busy'')) (snd (sampleCreated 600)))
     = DeleteAllocation sampleFingerprint (sampleTuple UDP) (Some (External ''busy'')) (snd (sampleCreated 600))
 \<and> GetAllocation sampleFingerprint (mgr (world madeManager)) (sampleTuple UDP) = None
 \<and> DeleteAllocation sampleFingerprint (sampleTuple UDP) None (world madeManager) = world madeManager
 \<and> sampleFingerprint (sampleTuple UDP) \<noteq> sampleFingerprint (sampleTuple TCP)
 \<and> GetAllocation sampleFingerprint
      (mgr (DeleteAllocation sampleFingerprint (sampleTuple TCP) None (snd (sampleCreated 600)))) (sampleTuple UDP)
     = Some 0"
proof -
  have absent: "GetAllocation sampleFingerprint (mgr (world madeManager)) (sampleTuple UDP) = None"
    by (simp add: GetAllocation_def world_def madeManager_def)
  have other: "sampleFingerprint (sampleTuple UDP) \<noteq> sampleFingerprint (sampleTuple TCP)"
    by (simp add: sampleFingerprint_def sampleTuple_def)
  from sampleCreated_600(2) absent other
    DeleteAllocation_idempotent[where Fingerprint = sampleFingerprint and t = "sampleTuple UDP"
      and closed = "Some (External ''busy'')" and closed' = None and w = "snd (sampleCreated 600)" and a = 0
      and u = "sampleTuple TCP"]
    DeleteAllocation_idempotent[where Fingerprint = sampleFingerprint and t = "sampleTuple UDP"
      and closed = None and closed' = None and w = "world madeManager" and a = 0 and u = "sampleTuple TCP"]
    DeleteAllocation_idempotent[where Fingerprint = sampleFingerprint and t = "sampleTuple TCP"
      and closed = None and closed' = None and w = "snd (sampleCreated 600)" and a = 0 and u = "sampleTuple UDP"]
  show ?thesis by simp
qed

subsection \<open>Reservations\<close>

lemma GetReservation_loop_append:
  "GetReservation_loop (xs @ ys) T =
     (if snd (GetReservation_loop xs T) then GetReservation_loop xs T else GetReservation_loop ys T)"
  by (induction xs) auto

lemma GetReservation_loop_found:
  "snd (GetReservation_loop rs T) = (\<exists>r \<in> set rs. token r = T)"
  by (induction rs) auto

lemma GetReservation_loop_absent:
  "\<not> snd (GetReservation_loop rs T) \<Longrightarrow> GetReservation_loop rs T = (0, False)"
  by (induction rs) (auto split: if_splits)

text \<open>
  The callback removes the last reservation that carries the token, and
  nothing when no reservation carries it.
\<close>

lemma expire_loop_last:
  "token r = T \<Longrightarrow> \<forall>y \<in> set ys. token y \<noteq> T \<Longrightarrow> n \<le> length ys \<Longrightarrow>
     expire_loop (xs @ r # ys) T (Suc (length xs) + n) = xs @ ys"
proof (induction n)
  case 0
  then show ?case by simp
next
  case (Suc n)
  then have "(xs @ r # ys) ! (Suc (length xs) + n) = ys ! n"
    by (simp add: nth_append)
  moreover from Suc have "token (ys ! n) \<noteq> T" by simp
  ultimately show ?case using Suc by simp
qed

lemma expire_loop_none:
  "\<forall>y \<in> set rs. token y \<noteq> T \<Longrightarrow> n \<le> length rs \<Longrightarrow> expire_loop rs T n = rs"
  by (induction n) auto

lemma reservationExpired_last:
  assumes "reservations (mgr w) = xs @ r # ys" "token r = T" "\<forall>y \<in> set ys. token y \<noteq> T"
  shows "reservations (mgr (reservationExpired T w)) = xs @ ys"
  using expire_loop_last[OF assms(2,3), of "length ys" xs] assms(1)
  by (simp add: reservationExpired_def)

lemma once_split:
  assumes "length (filter (\<lambda>r. token r = T) rs) = 1"
  shows "\<exists>xs r ys. rs = xs @ r # ys \<and> token r = T \<and> (\<forall>x \<in> set xs. token x \<noteq> T) \<and> (\<forall>y \<in> set ys. token y \<noteq> T)"
proof -
  from assms have "filter (\<lambda>r. token r = T) rs \<noteq> []" by auto
  then have "\<exists>r \<in> set rs. token r = T" by (simp add: filter_empty_conv)
  from split_list_last_prop[OF this] obtain xs r ys
    where rs: "rs = xs @ r # ys" and r: "token r = T" and ys: "\<forall>y \<in> set ys. token y \<noteq> T" by blast
  from assms rs r ys have "filter (\<lambda>r. token r = T) xs = []" by simp
  then have "\<forall>x \<in> set xs. token x \<noteq> T" by (simp add: filter_empty_conv)
  with rs r ys show ?thesis by blast
qed

text \<open>
  Claim C10, as amended. \<^verbatim>\<open>CreateReservation\<close> appends the reservation
  after those that exist and arms a timer of 30 seconds. \<^verbatim>\<open>GetReservation\<close>
  returns the first reservation with the token: right after
  \<^verbatim>\<open>CreateReservation(T, P)\<close> it returns \<open>(P, True)\<close> when \<open>T\<close> was not
  reserved, and what it returned before when \<open>T\<close> was reserved (the existing
  reservation is not replaced). The timer's callback removes the last
  reservation with the token: run right after the creation it removes the one
  just created, and run in any state where exactly one reservation carries
  \<open>T\<close> it leaves \<^verbatim>\<open>GetReservation(T)\<close> returning \<open>(0, False)\<close>.
\<close>

theorem CreateReservation_then_Get:
  "GetReservation (mgr (CreateReservation T P w)) T =
     (if snd (GetReservation (mgr w) T) then GetReservation (mgr w) T else (P, True))
 \<and> reservations (mgr (CreateReservation T P w)) = reservations (mgr w) @ [\<lparr> token = T, port = P \<rparr>]
 \<and> trace (CreateReservation T P w) = trace w @ [AfterFunc (30 * Second) (ReservationExpired T)]
 \<and> reservations (mgr (reservationExpired T (CreateReservation T P w))) = reservations (mgr w)
 \<and> (length (filter (\<lambda>r. token r = T) (reservations (mgr w'))) = 1 \<longrightarrow>
      GetReservation (mgr (reservationExpired T w')) T = (0, False))"
proof -
  have made: "reservations (mgr (CreateReservation T P w)) = reservations (mgr w) @ [\<lparr> token = T, port = P \<rparr>]"
    by (simp add: CreateReservation_def Let_def)
  have got: "GetReservation (mgr (CreateReservation T P w)) T =
     (if snd (GetReservation (mgr w) T) then GetReservation (mgr w) T else (P, True))"
    by (simp add: GetReservation_def made GetReservation_loop_append)
  have armed: "trace (CreateReservation T P w) = trace w @ [AfterFunc (30 * Second) (ReservationExpired T)]"
    by (simp add: CreateReservation_def Let_def)
  have undone: "reservations (mgr (reservationExpired T (CreateReservation T P w))) = reservations (mgr w)"
    using reservationExpired_last[OF made, of T] by simp
  have expired: "GetReservation (mgr (reservationExpired T w')) T = (0, False)"
    if once: "length (filter (\<lambda>r. token r = T) (reservations (mgr w'))) = 1"
  proof -
    from once_split[OF once] obtain xs r ys where rs: "reservations (mgr w') = xs @ r # ys"
      and r: "token r = T" and xs: "\<forall>x \<in> set xs. token x \<noteq> T" and ys: "\<forall>y \<in> set ys. token y \<noteq> T"
      by blast
    from reservationExpired_last[OF rs r ys] xs ys
    have "\<not> snd (GetReservation_loop (reservations (mgr (reservationExpired T w'))) T)"
      by (auto simp: GetReservation_loop_found)
    from GetReservation_loop_absent[OF this] show ?thesis by (simp add: GetReservation_def)
  qed
  from made got armed undone expired show ?thesis by blast
qed

text \<open>
  A token reserved on port 7 in the empty manager is found at once, and not
  after its callback has run.
\<close>

theorem CreateReservation_then_Get_witness:
  "GetReservation (mgr (CreateReservation ''T'' 7 (world madeManager))) ''T'' = (7, True)
 \<and> length (filter (\<lambda>r. token r = ''T'') (reservations (mgr (CreateReservation ''T'' 7 (world madeManager))))) = 1
 \<and> GetReservation (mgr (reservationExpired ''T'' (CreateReservation ''T'' 7 (world madeManager)))) ''T'' = (0, False)"
proof -
  have fresh: "\<not> snd (GetReservation (mgr (world madeManager)) ''T'')"
    by (simp add: GetReservation_def world_def madeManager_def)
  have once: "length (filter (\<lambda>r. token r = ''T'') (reservations (mgr (CreateReservation ''T'' 7 (world madeManager))))) = 1"
    by (simp add: CreateReservation_def emit_def world_def madeManager_def)
  from fresh once
    CreateReservation_then_Get[where T = "''T''" and P = 7 and w = "world madeManager"
      and w' = "CreateReservation ''T'' 7 (world madeManager)"]
  show ?thesis by simp
qed

text \<open>
  Claim C10 as stated has \<^verbatim>\<open>GetReservation(T)\<close> return \<open>(P, True)\<close> after
  \<^verbatim>\<open>CreateReservation(T, P)\<close> for every token. With \<open>T\<close> reserved on
  port 1, reserving it again on port 2 leaves the answer at port 1.
\<close>

theorem CreateReservation_keeps_existing:
  "GetReservation (mgr (CreateReservation ''T'' 2 (CreateReservation ''T'' 1 (world madeManager)))) ''T'' = (1, True)"
  by (simp add: GetReservation_def CreateReservation_def emit_def world_def madeManager_def)

subsection \<open>GetRandomEvenPort\<close>

text \<open>
  What \<^verbatim>\<open>GetRandomEvenPort\<close> leaves behind. It does not touch the manager.
  A port it returns fails the test \<^verbatim>\<open>Port%2 == 1\<close>, and every connection
  the capability gave in the call has had \<^verbatim>\<open>Close\<close> called on it. The
  same holds of the connections when it returns an error, as long as no
  address in the script fails the cast to \<^verbatim>\<open>*net.UDPAddr\<close>.
\<close>

lemma GetRandomEvenPort_trace:
  "GetRandomEvenPort probes w = Some (r, w') \<Longrightarrow>
     mgr w' = mgr w \<and> heap w' = heap w
     \<and> (\<exists>es. trace w' = trace w @ es \<and> es \<noteq> []
           \<and> (case r of
                 Inr p \<Rightarrow> p smod 2 \<noteq> 1 \<and> obtained es = closeCalled es
               | Inl e \<Rightarrow> (\<forall>conn s closed. Probe (CapGives conn (OtherAddr s)) closed \<notin> set probes)
                           \<longrightarrow> obtained es = closeCalled es))"
proof (induction probes w rule: GetRandomEvenPort.induct)
  case (1 w)
  then show ?case by simp
next
  case (2 resp closed probes w)
  show ?case
  proof (cases resp)
    case (CapFails err)
    with 2(2) show ?thesis by auto
  next
    case (CapGives conn addr)
    show ?thesis
    proof (cases addr)
      case (OtherAddr s)
      with 2(2) CapGives show ?thesis by force
    next
      case (UDPAddr q)
      show ?thesis
      proof (cases closed)
        case (Some err)
        with 2(2) CapGives UDPAddr show ?thesis by auto
      next
        case None
        show ?thesis
        proof (cases "q smod 2 = 1")
          case False
          with 2(2) CapGives UDPAddr None show ?thesis by auto
        next
          case True
          let ?w2 = "emit (CallConnClose conn closed) (emit (CallAllocatePacketConn ''udp4'' 0 resp) w)"
          from 2(2) CapGives UDPAddr None True
          have rec: "GetRandomEvenPort probes ?w2 = Some (r, w')" by simp
          from 2(1)[OF refl CapGives UDPAddr refl None True rec]
          obtain es where es: "mgr w' = mgr w" "heap w' = heap w" "trace w' = trace ?w2 @ es"
            "case r of
                 Inr p \<Rightarrow> p smod 2 \<noteq> 1 \<and> obtained es = closeCalled es
               | Inl e \<Rightarrow> (\<forall>conn s closed. Probe (CapGives conn (OtherAddr s)) closed \<notin> set probes)
                           \<longrightarrow> obtained es = closeCalled es" by auto
          let ?es = "CallAllocatePacketConn ''udp4'' 0 resp # CallConnClose conn closed # es"
          have "trace w' = trace w @ ?es" using es(3) by simp
          moreover have "case r of
                 Inr p \<Rightarrow> p smod 2 \<noteq> 1 \<and> obtained ?es = closeCalled ?es
               | Inl e \<Rightarrow> (\<forall>c s cl. Probe (CapGives c (OtherAddr s)) cl \<notin> set (Probe resp closed # probes))
                           \<longrightarrow> obtained ?es = closeCalled ?es"
            using es(4) CapGives by (auto split: sum.splits)
          ultimately show ?thesis using es(1,2) by blast
        qed
      qed
    qed
  qed
qed

text \<open>
  For a port that is not negative the test \<^verbatim>\<open>Port%2 == 1\<close> is the test
  for an odd port. Go's remainder of a negative odd number is -1, so a
  negative odd port, if the capability ever reported one, would pass as even.
\<close>

lemma smod_2_even: "0 \<le> p \<Longrightarrow> p smod 2 \<noteq> 1 \<Longrightarrow> even (p :: int)"
  by (auto simp: signed_modulo_int_def sgn_if split: if_splits)

lemma GetRandomEvenPort_even:
  assumes "GetRandomEvenPort probes w = Some (Inr p, w')" and "0 \<le> p"
  shows "even p"
  using GetRandomEvenPort_trace[OF assms(1)] assms(2) by (auto intro: smod_2_even)

lemma GetRandomEvenPort_negative_odd:
  "GetRandomEvenPort (Probe (CapGives conn (UDPAddr (- 3))) None # probes) w =
     Some (Inr (- 3), emit (CallConnClose conn None)
                        (emit (CallAllocatePacketConn ''udp4'' 0 (CapGives conn (UDPAddr (- 3)))) w))"
  by (simp add: signed_modulo_int_def)

text \<open>
  Claim C4. The claim is that on every path the connection that
  \<^verbatim>\<open>GetRandomEvenPort\<close> probed has been closed before it returns. The
  code does otherwise on one path: when the address the capability gave is not
  a \<^verbatim>\<open>*net.UDPAddr\<close>, it returns the cast error at once. Of the call the
  trace holds the capability's answer alone: the connection was obtained, and
  \<^verbatim>\<open>Close\<close> was not called on it.
\<close>

theorem GetRandomEvenPort_cast_failure:
  "GetRandomEvenPort (Probe (CapGives conn (OtherAddr s)) closed # probes) w =
     Some (Inl (Errorf ''failed to cast net.Addr to *net.UDPAddr''),
           emit (CallAllocatePacketConn ''udp4'' 0 (CapGives conn (OtherAddr s))) w)
 \<and> obtained [CallAllocatePacketConn ''udp4'' 0 (CapGives conn (OtherAddr s))] = [conn]
 \<and> closeCalled [CallAllocatePacketConn ''udp4'' 0 (CapGives conn (OtherAddr s))] = []"
  by simp

end
